theory Spec2Isabelle
  imports Main
begin

section \<open>Python values that the validation code handles\<close>

text \<open>
  A schema is a \<^verbatim>\<open>Protocol\<close> class; each of its annotations names a column and gives a
  Python type, possibly wrapped in \<^verbatim>\<open>Annotated[T, v1, ...]\<close> with validator objects
  attached. The types that occur in the sources and their tests are enumerated; any other
  class is \<open>PyOther\<close> with its name.
\<close>

datatype pytype =
  PyInt | PyFloat | PyStr | PyBool | PyDatetime | PyDate | PyTimedelta | PyOther string

text \<open>
  Modelled from the spec: \<^verbatim>\<open>patrol.validators.Range\<close> is imported by
  \<^verbatim>\<open>_pandas/validator_impl.py\<close> but its class declaration is not among the sources. The
  spec gives it two inclusive bounds; the code reads them as \<^verbatim>\<open>validator.min\<close> and
  \<^verbatim>\<open>validator.max\<close>. Any other object handed in as a validator is \<open>OtherValidator\<close>
  with the name of its class.
\<close>

datatype validator = Range int int | OtherValidator string

datatype annotation = Plain pytype | Annotated pytype "validator list"

type_synonym schema = "(string \<times> annotation) list"

text \<open>The exceptions the code raises, with their message.\<close>

datatype pyexc =
  ValueError string
  | TypeError string
  | AttributeError string
  | ColumnNotFoundError string

datatype exc_class = ValueErrorClass | TypeErrorClass | AttributeErrorClass | ColumnNotFoundErrorClass

fun class_of :: "pyexc \<Rightarrow> exc_class" where
  "class_of (ValueError m) = ValueErrorClass"
| "class_of (TypeError m) = TypeErrorClass"
| "class_of (AttributeError m) = AttributeErrorClass"
| "class_of (ColumnNotFoundError m) = ColumnNotFoundErrorClass"

subsection \<open>Rendering values inside f-strings\<close>

definition quote :: string where
  "quote = [CHR 0x27]"

text \<open>\<^verbatim>\<open>expected_type.__name__\<close>\<close>

fun type_name :: "pytype \<Rightarrow> string" where
  "type_name PyInt = ''int''"
| "type_name PyFloat = ''float''"
| "type_name PyStr = ''str''"
| "type_name PyBool = ''bool''"
| "type_name PyDatetime = ''datetime''"
| "type_name PyDate = ''date''"
| "type_name PyTimedelta = ''timedelta''"
| "type_name (PyOther n) = n"

text \<open>\<^verbatim>\<open>str(expected_type)\<close>, as in \<^verbatim>\<open>f"Unsupported type: {expected_type}"\<close>\<close>

fun qualified_name :: "pytype \<Rightarrow> string" where
  "qualified_name PyDatetime = ''datetime.datetime''"
| "qualified_name PyDate = ''datetime.date''"
| "qualified_name PyTimedelta = ''datetime.timedelta''"
| "qualified_name t = type_name t"

definition str_type :: "pytype \<Rightarrow> string" where
  "str_type t = ''<class '' @ quote @ qualified_name t @ quote @ ''>''"

text \<open>\<^verbatim>\<open>str(n)\<close> for a Python integer: decimal digits, with a minus sign when negative.\<close>

fun digits :: "nat \<Rightarrow> string" where
  "digits n = (if n < 10 then [''0123456789'' ! n] else digits (n div 10) @ [''0123456789'' ! (n mod 10)])"

definition str_int :: "int \<Rightarrow> string" where
  "str_int i = (if i < 0 then ''-'' @ digits (nat (- i)) else digits (nat i))"

text \<open>\<^verbatim>\<open>type(validator)\<close> rendered in \<^verbatim>\<open>f"Unknown validator type: {type(validator)}"\<close>\<close>

fun str_validator_type :: "validator \<Rightarrow> string" where
  "str_validator_type (Range lo hi) = ''<class '' @ quote @ ''patrol.validators.Range'' @ quote @ ''>''"
| "str_validator_type (OtherValidator n) = ''<class '' @ quote @ n @ quote @ ''>''"

section \<open>Schema extraction\<close>

text \<open>
  Both engines start with \<^verbatim>\<open>expected_cols = get_type_hints(schema)\<close>. The call passes no
  \<^verbatim>\<open>include_extras=True\<close>, so \<^verbatim>\<open>typing.get_type_hints\<close> strips every
  \<^verbatim>\<open>Annotated\<close> wrapper: the engine sees the bare type and none of the validators.
\<close>

fun strip_annotated :: "annotation \<Rightarrow> pytype" where
  "strip_annotated (Plain t) = t"
| "strip_annotated (Annotated t vs) = t"

definition get_type_hints :: "schema \<Rightarrow> (string \<times> pytype) list" where
  "get_type_hints schema = map (\<lambda>(col_name, a). (col_name, strip_annotated a)) schema"

section \<open>Tables\<close>

text \<open>
  A table is an ordered list of named columns; a column has a backend dtype \<open>'d\<close> and a
  sequence of values \<open>'v\<close>. \<^verbatim>\<open>df.columns\<close> is the list of names and \<^verbatim>\<open>df[col_name]\<close>
  looks a column up by name.
\<close>

type_synonym ('d, 'v) series = "'d \<times> 'v list"

text \<open>
  Cell values: a number, a string, a boolean, or a missing value (\<^verbatim>\<open>None\<close>, \<^verbatim>\<open>NaN\<close> or
  \<^verbatim>\<open>pd.NA\<close>, which all behave alike under a comparison). Numbers are Python integers;
  the engine itself is generic in the cell type.
\<close>

datatype pyvalue = IntValue int | StrValue string | BoolValue bool | NoneValue

type_synonym ('d, 'v) frame = "(string \<times> ('d, 'v) series) list"

definition columns :: "('d, 'v) frame \<Rightarrow> string list" where
  "columns df = map fst df"

definition getitem :: "('d, 'v) frame \<Rightarrow> string \<Rightarrow> ('d, 'v) series option" where
  "getitem df col_name = map_of df col_name"

definition dtype :: "('d, 'v) series \<Rightarrow> 'd" where
  "dtype s = fst s"

section \<open>The logical type registries\<close>

subsection \<open>\<^verbatim>\<open>polars.py\<close>: \<^verbatim>\<open>TYPE_CHECKERS\<close>\<close>

datatype pl_dtype =
  Int8 | Int16 | Int32 | Int64 | UInt8 | UInt16 | UInt32 | UInt64
  | Float32 | Float64 | Utf8 | Boolean
  | Datetime | Date | Duration | Time | Categorical | Null | OtherDtype string

definition polars_TYPE_CHECKERS :: "pytype \<Rightarrow> (pl_dtype \<Rightarrow> bool) option" where
  "polars_TYPE_CHECKERS t =
     (case t of
        PyInt \<Rightarrow> Some (\<lambda>dtype. dtype \<in> set [Int8, Int16, Int32, Int64, UInt8, UInt16, UInt32, UInt64])
      | PyFloat \<Rightarrow> Some (\<lambda>dtype. dtype \<in> set [Float32, Float64])
      | PyStr \<Rightarrow> Some (\<lambda>dtype. dtype = Utf8)
      | PyBool \<Rightarrow> Some (\<lambda>dtype. dtype = Boolean)
      | _ \<Rightarrow> None)"

text \<open>\<^verbatim>\<open>str(col_dtype)\<close> of a polars dtype, used in the type error's message.\<close>

fun str_pl_dtype :: "pl_dtype \<Rightarrow> string" where
  "str_pl_dtype Int8 = ''Int8''"
| "str_pl_dtype Int16 = ''Int16''"
| "str_pl_dtype Int32 = ''Int32''"
| "str_pl_dtype Int64 = ''Int64''"
| "str_pl_dtype UInt8 = ''UInt8''"
| "str_pl_dtype UInt16 = ''UInt16''"
| "str_pl_dtype UInt32 = ''UInt32''"
| "str_pl_dtype UInt64 = ''UInt64''"
| "str_pl_dtype Float32 = ''Float32''"
| "str_pl_dtype Float64 = ''Float64''"
| "str_pl_dtype Utf8 = ''Utf8''"
| "str_pl_dtype Boolean = ''Boolean''"
| "str_pl_dtype Datetime = ''Datetime''"
| "str_pl_dtype Date = ''Date''"
| "str_pl_dtype Duration = ''Duration''"
| "str_pl_dtype Time = ''Time''"
| "str_pl_dtype Categorical = ''Categorical''"
| "str_pl_dtype Null = ''Null''"
| "str_pl_dtype (OtherDtype n) = n"

subsection \<open>\<^verbatim>\<open>_core/validation.py\<close>: \<^verbatim>\<open>TYPE_CHECKERS\<close>\<close>

text \<open>
  The pandas registry maps the same four Python types to predicates of
  \<^verbatim>\<open>pandas.api.types\<close>. Those predicates belong to pandas, not to this repository, so they
  are parameters of the model, over an arbitrary type \<open>'d\<close> of pandas dtypes. The code
  hands them the series \<^verbatim>\<open>df[col_name]\<close>, of which they inspect the dtype.
\<close>

record 'd pd_api_types =
  is_integer_dtype :: "'d \<Rightarrow> bool"
  is_float_dtype :: "'d \<Rightarrow> bool"
  is_string_dtype :: "'d \<Rightarrow> bool"
  is_bool_dtype :: "'d \<Rightarrow> bool"

definition core_TYPE_CHECKERS :: "'d pd_api_types \<Rightarrow> pytype \<Rightarrow> ('d \<Rightarrow> bool) option" where
  "core_TYPE_CHECKERS api t =
     (case t of
        PyInt \<Rightarrow> Some (is_integer_dtype api)
      | PyFloat \<Rightarrow> Some (is_float_dtype api)
      | PyStr \<Rightarrow> Some (is_string_dtype api)
      | PyBool \<Rightarrow> Some (is_bool_dtype api)
      | _ \<Rightarrow> None)"

section \<open>The validation engine\<close>

text \<open>
  \<^verbatim>\<open>_core/validation.py\<close> and \<^verbatim>\<open>polars.py\<close> each hold the same three functions,
  \<^verbatim>\<open>_check_column_exists\<close>, \<^verbatim>\<open>_check_column_type\<close> and \<^verbatim>\<open>validate_dataframe\<close>; they
  differ only in the module-level table \<^verbatim>\<open>TYPE_CHECKERS\<close> they consult and in how the
  backend prints a dtype. The model takes these two as the arguments \<open>TYPE_CHECKERS\<close>
  and \<open>str_dtype\<close>.

  Every function returns, next to its outcome, the log of the checks it carried out, in
  order: \<open>ExistenceChecked c\<close> for the test \<^verbatim>\<open>col_name not in df.columns\<close> and
  \<open>CheckerCalled c\<close> for the call \<^verbatim>\<open>type_checker(...)\<close> on column \<open>c\<close>. A raised
  exception is \<open>Inl\<close>; what would have run after it leaves no trace in the log.
  Indexing the table with an absent column name raises the backend's own lookup error
  (\<^verbatim>\<open>KeyError\<close> in pandas, \<^verbatim>\<open>ColumnNotFoundError\<close> in polars), modelled as
  \<open>ColumnNotFoundError\<close>; the engine checks existence first and never gets there.
\<close>

datatype event = ExistenceChecked string | CheckerCalled string

type_synonym 'a outcome = "event list \<times> (pyexc + 'a)"

fun and_then :: "unit outcome \<Rightarrow> unit outcome \<Rightarrow> unit outcome" where
  "and_then (log1, Inl e) next_step = (log1, Inl e)"
| "and_then (log1, Inr u) (log2, r) = (log1 @ log2, r)"

definition check_column_exists :: "('d, 'v) frame \<Rightarrow> string \<Rightarrow> unit outcome" where
  "check_column_exists df col_name =
     (if col_name \<notin> set (columns df)
      then ([ExistenceChecked col_name], Inl (ValueError (''Missing column: '' @ col_name)))
      else ([ExistenceChecked col_name], Inr ()))"

definition check_column_type ::
  "(pytype \<Rightarrow> ('d \<Rightarrow> bool) option) \<Rightarrow> ('d \<Rightarrow> string) \<Rightarrow> ('d, 'v) frame \<Rightarrow> string \<Rightarrow> pytype
     \<Rightarrow> unit outcome" where
  "check_column_type TYPE_CHECKERS str_dtype df col_name expected_type =
     (case TYPE_CHECKERS expected_type of
        None \<Rightarrow> ([], Inl (ValueError (''Unsupported type: '' @ str_type expected_type)))
      | Some type_checker \<Rightarrow>
          (case getitem df col_name of
             None \<Rightarrow> ([], Inl (ColumnNotFoundError col_name))
           | Some column \<Rightarrow>
               if \<not> type_checker (dtype column)
               then ([CheckerCalled col_name],
                     Inl (TypeError (''Column '' @ quote @ col_name @ quote @ '' expected ''
                            @ type_name expected_type @ '', got '' @ str_dtype (dtype column))))
               else ([CheckerCalled col_name], Inr ())))"

text \<open>The loop \<^verbatim>\<open>for col_name, col_type in expected_cols.items()\<close>.\<close>

fun check_columns ::
  "(pytype \<Rightarrow> ('d \<Rightarrow> bool) option) \<Rightarrow> ('d \<Rightarrow> string) \<Rightarrow> ('d, 'v) frame
     \<Rightarrow> (string \<times> pytype) list \<Rightarrow> unit outcome" where
  "check_columns TYPE_CHECKERS str_dtype df [] = ([], Inr ())"
| "check_columns TYPE_CHECKERS str_dtype df ((col_name, col_type) # rest) =
     and_then (check_column_exists df col_name)
       (and_then (check_column_type TYPE_CHECKERS str_dtype df col_name col_type)
          (check_columns TYPE_CHECKERS str_dtype df rest))"

definition validate_dataframe ::
  "(pytype \<Rightarrow> ('d \<Rightarrow> bool) option) \<Rightarrow> ('d \<Rightarrow> string) \<Rightarrow> ('d, 'v) frame \<Rightarrow> schema
     \<Rightarrow> unit outcome" where
  "validate_dataframe TYPE_CHECKERS str_dtype df schema =
     check_columns TYPE_CHECKERS str_dtype df (get_type_hints schema)"

text \<open>The two engines of the repository.\<close>

definition core_validate_dataframe ::
  "'d pd_api_types \<Rightarrow> ('d \<Rightarrow> string) \<Rightarrow> ('d, 'v) frame \<Rightarrow> schema \<Rightarrow> unit outcome" where
  "core_validate_dataframe api str_dtype df schema =
     validate_dataframe (core_TYPE_CHECKERS api) str_dtype df schema"

definition polars_validate_dataframe :: "(pl_dtype, 'v) frame \<Rightarrow> schema \<Rightarrow> unit outcome" where
  "polars_validate_dataframe df schema =
     validate_dataframe polars_TYPE_CHECKERS str_pl_dtype df schema"

section \<open>The constraint dispatcher, \<^verbatim>\<open>_pandas/validator_impl.py\<close>\<close>

text \<open>
  The series handed to the dispatcher is any pandas series. \<^verbatim>\<open>series < bound\<close> compares
  value by value: a number (a boolean counts as 0 or 1) is compared as such, a missing
  value compares \<^verbatim>\<open>False\<close> either way, and a string makes the whole comparison raise
  \<^verbatim>\<open>TypeError\<close>.
\<close>

fun cell_lt :: "pyvalue \<Rightarrow> int \<Rightarrow> pyexc + bool" where
  "cell_lt (IntValue v) bound = Inr (v < bound)"
| "cell_lt (BoolValue b) bound = Inr ((if b then 1 else 0) < bound)"
| "cell_lt NoneValue bound = Inr False"
| "cell_lt (StrValue s) bound =
     Inl (TypeError (quote @ ''<'' @ quote @ '' not supported between instances of ''
            @ quote @ ''str'' @ quote @ '' and '' @ quote @ ''int'' @ quote))"

fun cell_gt :: "pyvalue \<Rightarrow> int \<Rightarrow> pyexc + bool" where
  "cell_gt (IntValue v) bound = Inr (v > bound)"
| "cell_gt (BoolValue b) bound = Inr ((if b then 1 else 0) > bound)"
| "cell_gt NoneValue bound = Inr False"
| "cell_gt (StrValue s) bound =
     Inl (TypeError (quote @ ''>'' @ quote @ '' not supported between instances of ''
            @ quote @ ''str'' @ quote @ '' and '' @ quote @ ''int'' @ quote))"

fun series_compare ::
  "(pyvalue \<Rightarrow> int \<Rightarrow> pyexc + bool) \<Rightarrow> pyvalue list \<Rightarrow> int \<Rightarrow> pyexc + bool list" where
  "series_compare cmp [] bound = Inr []"
| "series_compare cmp (v # vs) bound =
     (case cmp v bound of
        Inl e \<Rightarrow> Inl e
      | Inr b \<Rightarrow>
          (case series_compare cmp vs bound of
             Inl e \<Rightarrow> Inl e
           | Inr bs \<Rightarrow> Inr (b # bs)))"

text \<open>\<^verbatim>\<open>.any()\<close> of a boolean series.\<close>

definition any_true :: "bool list \<Rightarrow> bool" where
  "any_true bs = list_ex (\<lambda>b. b) bs"

text \<open>
  \<^verbatim>\<open>if (series < validator.min).any() or (series > validator.max).any(): raise ...\<close>; the
  second comparison runs only when the first finds nothing. Reading \<^verbatim>\<open>.min\<close> of an
  object that is no \<^verbatim>\<open>Range\<close> raises \<^verbatim>\<open>AttributeError\<close>.
\<close>

fun validate_range :: "pyvalue list \<Rightarrow> validator \<Rightarrow> string \<Rightarrow> pyexc + unit" where
  "validate_range series (Range lo hi) col_name =
     (case series_compare cell_lt series lo of
        Inl e \<Rightarrow> Inl e
      | Inr is_below \<Rightarrow>
          if any_true is_below
          then Inl (ValueError (''Column '' @ quote @ col_name @ quote
                  @ '': values must be in range ['' @ str_int lo @ '', '' @ str_int hi @ '']''))
          else
            (case series_compare cell_gt series hi of
               Inl e \<Rightarrow> Inl e
             | Inr is_above \<Rightarrow>
                 if any_true is_above
                 then Inl (ValueError (''Column '' @ quote @ col_name @ quote
                         @ '': values must be in range ['' @ str_int lo @ '', '' @ str_int hi @ '']''))
                 else Inr ()))"
| "validate_range series (OtherValidator n) col_name =
     Inl (AttributeError (quote @ n @ quote @ '' object has no attribute '' @ quote @ ''min'' @ quote))"

fun apply_validator :: "pyvalue list \<Rightarrow> validator \<Rightarrow> string \<Rightarrow> pyexc + unit" where
  "apply_validator series (Range lo hi) col_name = validate_range series (Range lo hi) col_name"
| "apply_validator series validator col_name =
     Inl (ValueError (''Unknown validator type: '' @ str_validator_type validator))"

section \<open>The typed-table wrapper, \<^verbatim>\<open>polars.py\<close>: \<^verbatim>\<open>class DataFrame\<close>\<close>

text \<open>
  The wrapper classes: \<^verbatim>\<open>DataFrame\<close> itself, whose \<^verbatim>\<open>_schema\<close> is \<^verbatim>\<open>None\<close>, and the
  subclasses \<^verbatim>\<open>TypedDataFrame\<close> that \<^verbatim>\<open>__class_getitem__\<close> creates, one per schema.
\<close>

datatype wrapper_class = DataFrame | TypedDataFrame schema

fun schema_of :: "wrapper_class \<Rightarrow> schema option" where
  "schema_of DataFrame = None"
| "schema_of (TypedDataFrame schema) = Some schema"

definition class_getitem :: "wrapper_class \<Rightarrow> schema \<Rightarrow> wrapper_class" where
  "class_getitem cls schema = TypedDataFrame schema"

text \<open>
  Python hands objects around by reference, and the claims speak of object identity, so
  objects live in a store: a list indexed by address. An object is a dataframe, tagged
  with its class (\<^verbatim>\<open>pl.DataFrame\<close> or one of the wrapper classes, all of which pass
  \<^verbatim>\<open>isinstance(data, pl.DataFrame)\<close>), or raw input (a dict or a list). A reference
  held by a running program is always live: \<open>data < length heap\<close>.
\<close>

datatype object_class = PlDataFrame | Wrapper wrapper_class

datatype ('v, 'r) object =
  DataFrameObject object_class "(pl_dtype, 'v) frame"
  | RawObject 'r

type_synonym ('v, 'r) heap = "('v, 'r) object list"

fun isinstance_pl_DataFrame :: "('v, 'r) object \<Rightarrow> bool" where
  "isinstance_pl_DataFrame (DataFrameObject c df) = True"
| "isinstance_pl_DataFrame (RawObject raw) = False"

fun is_wrapper_instance :: "('v, 'r) object \<Rightarrow> bool" where
  "is_wrapper_instance (DataFrameObject (Wrapper w) df) = True"
| "is_wrapper_instance ob = False"

text \<open>
  \<^verbatim>\<open>__new__(cls, data, *args, **kwargs)\<close>. The constructor \<^verbatim>\<open>pl.DataFrame(data, *args,
  **kwargs)\<close> belongs to polars and is the parameter \<open>pl_DataFrame\<close>: from raw input and
  the extra arguments it builds a table or raises. The new object is allocated at the
  end of the store, with class \<^verbatim>\<open>pl.DataFrame\<close>. The result is the outcome (the address
  of the returned object) and the store.
\<close>

definition DataFrame_new ::
  "('r \<Rightarrow> 'a \<Rightarrow> pyexc + (pl_dtype, 'v) frame) \<Rightarrow> wrapper_class \<Rightarrow> nat \<Rightarrow> 'a \<Rightarrow> ('v, 'r) heap
     \<Rightarrow> nat outcome \<times> ('v, 'r) heap" where
  "DataFrame_new pl_DataFrame cls data args heap =
     (case (case heap ! data of
              DataFrameObject c df \<Rightarrow> Inr (data, df, heap)
            | RawObject raw \<Rightarrow>
                (case pl_DataFrame raw args of
                   Inl e \<Rightarrow> Inl e
                 | Inr df \<Rightarrow> Inr (length heap, df, heap @ [DataFrameObject PlDataFrame df]))) of
        Inl e \<Rightarrow> (([], Inl e), heap)
      | Inr (inst, df, heap') \<Rightarrow>
          (case schema_of cls of
             None \<Rightarrow> (([], Inr inst), heap')
           | Some schema \<Rightarrow>
               (case polars_validate_dataframe df schema of
                  (log, Inl e) \<Rightarrow> ((log, Inl e), heap')
                | (log, Inr u) \<Rightarrow> ((log, Inr inst), heap'))))"

section \<open>What it means for a column to satisfy a declared type\<close>

text \<open>
  A physical type satisfies a logical type when the registry has a predicate for the
  logical type and the predicate accepts the physical type.
\<close>

definition satisfies :: "(pytype \<Rightarrow> ('d \<Rightarrow> bool) option) \<Rightarrow> pytype \<Rightarrow> 'd \<Rightarrow> bool" where
  "satisfies TYPE_CHECKERS t d = (case TYPE_CHECKERS t of None \<Rightarrow> False | Some type_checker \<Rightarrow> type_checker d)"

text \<open>A declared column passes when it is in the table with a satisfying dtype.\<close>

definition column_ok ::
  "(pytype \<Rightarrow> ('d \<Rightarrow> bool) option) \<Rightarrow> ('d, 'v) frame \<Rightarrow> string \<times> pytype \<Rightarrow> bool" where
  "column_ok TYPE_CHECKERS df hint =
     (case getitem df (fst hint) of
        None \<Rightarrow> False
      | Some column \<Rightarrow> satisfies TYPE_CHECKERS (snd hint) (dtype column))"

text \<open>The log that a run of passing columns leaves.\<close>

definition passed_log :: "(string \<times> pytype) list \<Rightarrow> event list" where
  "passed_log hints = concat (map (\<lambda>(col_name, t). [ExistenceChecked col_name, CheckerCalled col_name]) hints)"

fun event_column :: "event \<Rightarrow> string" where
  "event_column (ExistenceChecked c) = c"
| "event_column (CheckerCalled c) = c"

section \<open>Auxiliary definitions for the statements\<close>

text \<open>
  The exception \<open>e\<close> is one that the checks of column \<open>c\<close>, declared with type \<open>t\<close>,
  raise on table \<open>df\<close>: a missing column, an unregistered type, or a dtype that the
  registered predicate rejects; each with the class of the exception.
\<close>

definition raised_by ::
  "(pytype \<Rightarrow> ('d \<Rightarrow> bool) option) \<Rightarrow> ('d \<Rightarrow> string) \<Rightarrow> ('d, 'v) frame \<Rightarrow> pyexc \<Rightarrow> string \<Rightarrow> pytype \<Rightarrow> bool" where
  "raised_by reg sd df e c t =
     ((c \<notin> set (columns df) \<and> e = ValueError (''Missing column: '' @ c)
               \<and> class_of e = ValueErrorClass)
            \<or> (c \<in> set (columns df) \<and> reg t = None
               \<and> e = ValueError (''Unsupported type: '' @ str_type t)
               \<and> class_of e = ValueErrorClass)
            \<or> (\<exists>chk column. reg t = Some chk \<and> getitem df c = Some column \<and> \<not> chk (dtype column)
               \<and> e = TypeError (''Column '' @ quote @ c @ quote @ '' expected '' @ type_name t
                                  @ '', got '' @ sd (dtype column))
               \<and> class_of e = TypeErrorClass))"

text \<open>
  The spec's words for the range check, to compare the code with: a value is within the
  bounds when \<^verbatim>\<open>min <= v <= max\<close> holds of it, and out of bounds when \<^verbatim>\<open>v < min\<close> or
  \<^verbatim>\<open>v > max\<close> does. Neither holds of a missing value (every comparison with \<^verbatim>\<open>NaN\<close> is
  false) nor of a string.
\<close>

fun as_number :: "pyvalue \<Rightarrow> int option" where
  "as_number (IntValue n) = Some n"
| "as_number (BoolValue b) = Some (if b then 1 else 0)"
| "as_number NoneValue = None"
| "as_number (StrValue s) = None"

definition within_bounds :: "int \<Rightarrow> int \<Rightarrow> pyvalue \<Rightarrow> bool" where
  "within_bounds lo hi v = (case as_number v of None \<Rightarrow> False | Some n \<Rightarrow> lo \<le> n \<and> n \<le> hi)"

definition out_of_bounds :: "int \<Rightarrow> int \<Rightarrow> pyvalue \<Rightarrow> bool" where
  "out_of_bounds lo hi v = (case as_number v of None \<Rightarrow> False | Some n \<Rightarrow> n < lo \<or> n > hi)"

fun is_str :: "pyvalue \<Rightarrow> bool" where
  "is_str (StrValue s) = True"
| "is_str v = False"

text \<open>
  A sample of the pandas predicates, over dtype names, and a sample \<^verbatim>\<open>pl.DataFrame\<close>
  constructor that builds integer columns; both serve concrete runs only.
\<close>

definition pd_api :: "string pd_api_types" where
  "pd_api = \<lparr> is_integer_dtype = (\<lambda>d. d \<in> set [''int8'', ''int16'', ''int32'', ''int64'']),
              is_float_dtype = (\<lambda>d. d \<in> set [''float32'', ''float64'']),
              is_string_dtype = (\<lambda>d. d \<in> set [''object'', ''string'']),
              is_bool_dtype = (\<lambda>d. d = ''bool'') \<rparr>"

definition build_int_frame :: "(string \<times> int list) list \<Rightarrow> unit \<Rightarrow> pyexc + (pl_dtype, pyvalue) frame" where
  "build_int_frame raw args = Inr (map (\<lambda>(col_name, vs). (col_name, (Int64, map IntValue vs))) raw)"

section \<open>Properties of the engine\<close>

lemma in_columns_iff: "col_name \<in> set (columns df) \<longleftrightarrow> getitem df col_name \<noteq> None"
  by (simp add: columns_def getitem_def map_of_eq_None_iff)

lemma check_columns_ok:
  "list_all (column_ok reg df) hints \<Longrightarrow> check_columns reg sd df hints = (passed_log hints, Inr ())"
proof (induction hints)
  case Nil
  then show ?case by (simp add: passed_log_def)
next
  case (Cons h hints)
  obtain c t where h: "h = (c, t)" by (cases h)
  from Cons.prems h obtain column chk where
    col: "getitem df c = Some column" and reg: "reg t = Some chk" and ok: "chk (dtype column)"
    by (auto simp: column_ok_def satisfies_def split: option.splits)
  from col have ex: "check_column_exists df c = ([ExistenceChecked c], Inr ())"
    by (simp add: check_column_exists_def in_columns_iff)
  from col reg ok have ty: "check_column_type reg sd df c t = ([CheckerCalled c], Inr ())"
    by (simp add: check_column_type_def)
  from Cons.prems have "list_all (column_ok reg df) hints" by simp
  then have "check_columns reg sd df hints = (passed_log hints, Inr ())" by (rule Cons.IH)
  then show ?case using h ex ty by (simp add: passed_log_def)
qed

lemma check_columns_append_ok:
  "list_all (column_ok reg df) pre \<Longrightarrow>
   check_columns reg sd df (pre @ rest) =
     (passed_log pre @ fst (check_columns reg sd df rest), snd (check_columns reg sd df rest))"
proof (induction pre)
  case Nil
  then show ?case by (simp add: passed_log_def)
next
  case (Cons h pre)
  obtain c t where h: "h = (c, t)" by (cases h)
  from Cons.prems h obtain column chk where
    col: "getitem df c = Some column" and reg: "reg t = Some chk" and ok: "chk (dtype column)"
    by (auto simp: column_ok_def satisfies_def split: option.splits)
  from col have ex: "check_column_exists df c = ([ExistenceChecked c], Inr ())"
    by (simp add: check_column_exists_def in_columns_iff)
  from col reg ok have ty: "check_column_type reg sd df c t = ([CheckerCalled c], Inr ())"
    by (simp add: check_column_type_def)
  from Cons.prems have "list_all (column_ok reg df) pre" by simp
  then have ih: "check_columns reg sd df (pre @ rest) =
     (passed_log pre @ fst (check_columns reg sd df rest), snd (check_columns reg sd df rest))"
    by (rule Cons.IH)
  show ?case using h ex ty ih by (simp add: passed_log_def)
qed

section \<open>Properties of the constraint dispatcher\<close>

declare digits.simps [simp del]

lemma str_int_0: "str_int 0 = ''0''"
  by (simp add: str_int_def digits.simps)

lemma str_int_150: "str_int 150 = ''150''"
  by (simp add: str_int_def digits.simps)

lemma cell_lt_number:
  "\<not> is_str v \<Longrightarrow> cell_lt v b = Inr (case as_number v of None \<Rightarrow> False | Some n \<Rightarrow> n < b)"
  by (cases v) simp_all

lemma cell_gt_number:
  "\<not> is_str v \<Longrightarrow> cell_gt v b = Inr (case as_number v of None \<Rightarrow> False | Some n \<Rightarrow> n > b)"
  by (cases v) simp_all

lemma series_compare_lt:
  "list_all (\<lambda>v. \<not> is_str v) series \<Longrightarrow>
   series_compare cell_lt series b
     = Inr (map (\<lambda>v. case as_number v of None \<Rightarrow> False | Some n \<Rightarrow> n < b) series)"
  by (induction series) (simp_all add: cell_lt_number)

lemma series_compare_gt:
  "list_all (\<lambda>v. \<not> is_str v) series \<Longrightarrow>
   series_compare cell_gt series b
     = Inr (map (\<lambda>v. case as_number v of None \<Rightarrow> False | Some n \<Rightarrow> n > b) series)"
  by (induction series) (simp_all add: cell_gt_number)

lemma series_compare_lt_str:
  "\<not> list_all (\<lambda>v. \<not> is_str v) series \<Longrightarrow> \<exists>m. series_compare cell_lt series b = Inl (TypeError m)"
proof (induction series)
  case Nil
  then show ?case by simp
next
  case (Cons v series)
  show ?case
  proof (cases "is_str v")
    case True
    then show ?thesis by (cases v) simp_all
  next
    case False
    with Cons.prems have "\<not> list_all (\<lambda>v. \<not> is_str v) series" by simp
    from Cons.IH [OF this] obtain m where "series_compare cell_lt series b = Inl (TypeError m)" ..
    with False show ?thesis by (simp add: cell_lt_number)
  qed
qed

lemma any_true_map: "any_true (map f xs) = (\<exists>x \<in> set xs. f x)"
  by (simp add: any_true_def list_ex_iff)

lemma out_of_bounds_iff:
  "out_of_bounds lo hi v =
     ((case as_number v of None \<Rightarrow> False | Some n \<Rightarrow> n < lo) \<or> (case as_number v of None \<Rightarrow> False | Some n \<Rightarrow> n > hi))"
  by (simp add: out_of_bounds_def split: option.splits)

lemma validate_range_numbers:
  assumes "list_all (\<lambda>v. \<not> is_str v) series"
  shows "validate_range series (Range lo hi) col_name =
     (if \<exists>v \<in> set series. out_of_bounds lo hi v
      then Inl (ValueError (''Column '' @ quote @ col_name @ quote
                  @ '': values must be in range ['' @ str_int lo @ '', '' @ str_int hi @ '']''))
      else Inr ())"
  unfolding validate_range.simps series_compare_lt [OF assms] series_compare_gt [OF assms]
  by (auto simp: any_true_map out_of_bounds_iff)

lemma validate_range_strings:
  assumes "\<not> list_all (\<lambda>v. \<not> is_str v) series"
  shows "\<exists>m. validate_range series (Range lo hi) col_name = Inl (TypeError m)"
proof -
  from series_compare_lt_str [OF assms] obtain m where
    "series_compare cell_lt series lo = Inl (TypeError m)" ..
  then show ?thesis by simp
qed

lemma not_out_of_bounds:
  "\<not> is_str v \<Longrightarrow> (\<not> out_of_bounds lo hi v) = (v = NoneValue \<or> within_bounds lo hi v)"
  by (cases v) (auto simp: out_of_bounds_def within_bounds_def)

lemma str_not_within: "is_str v \<Longrightarrow> v \<noteq> NoneValue \<and> \<not> within_bounds lo hi v"
  by (cases v) (simp_all add: within_bounds_def)

lemma validate_range_pass_iff:
  "(validate_range series (Range lo hi) col_name = Inr ())
     = (\<forall>v \<in> set series. v = NoneValue \<or> within_bounds lo hi v)"
proof (cases "list_all (\<lambda>v. \<not> is_str v) series")
  case True
  then have "\<forall>v \<in> set series. (\<not> out_of_bounds lo hi v) = (v = NoneValue \<or> within_bounds lo hi v)"
    by (simp add: list_all_iff not_out_of_bounds)
  then have eq: "(\<not> (\<exists>v \<in> set series. out_of_bounds lo hi v))
     = (\<forall>v \<in> set series. v = NoneValue \<or> within_bounds lo hi v)"
    by blast
  have "(validate_range series (Range lo hi) col_name = Inr ())
     = (\<not> (\<exists>v \<in> set series. out_of_bounds lo hi v))"
    unfolding validate_range_numbers [OF True]
    by (cases "\<exists>v \<in> set series. out_of_bounds lo hi v") simp_all
  with eq show ?thesis by (simp only:)
next
  case False
  then obtain v where "v \<in> set series" and "is_str v" by (auto simp: list_all_iff)
  then have "\<not> (\<forall>v \<in> set series. v = NoneValue \<or> within_bounds lo hi v)"
    using str_not_within by blast
  moreover from validate_range_strings [OF False, of lo hi col_name]
  have "validate_range series (Range lo hi) col_name \<noteq> Inr ()" by auto
  ultimately show ?thesis by simp
qed

text \<open>
  Claim C5, as amended. The range check is inclusive, and missing values never fail it.
  Handed a \<open>Range lo hi\<close>, the dispatcher passes a column exactly when every value is
  missing or has \<open>lo \<le> v \<le> hi\<close>. On a column of numbers and missing values, when some
  value is below \<open>lo\<close> or above \<open>hi\<close> it raises a \<^verbatim>\<open>ValueError\<close> whose message holds
  the column name and the bounds, as \<^verbatim>\<open>Column 'c': values must be in range [lo, hi]\<close>.
  A column that holds a string cannot be compared with the bounds: the check raises
  \<^verbatim>\<open>TypeError\<close>. The dispatcher does nothing but call \<^verbatim>\<open>_validate_range\<close> here.
\<close>

theorem C5_range_inclusive:
  "((apply_validator series (Range lo hi) col_name = Inr ())
      = (\<forall>v \<in> set series. v = NoneValue \<or> within_bounds lo hi v))
   \<and> ((\<forall>v \<in> set series. \<not> is_str v) \<and> (\<exists>v \<in> set series. out_of_bounds lo hi v) \<longrightarrow>
         apply_validator series (Range lo hi) col_name =
           Inl (ValueError (''Column '' @ quote @ col_name @ quote
                  @ '': values must be in range ['' @ str_int lo @ '', '' @ str_int hi @ '']'')))
   \<and> ((\<exists>v \<in> set series. is_str v) \<longrightarrow>
         (\<exists>m. apply_validator series (Range lo hi) col_name = Inl (TypeError m)))
   \<and> validate_range series (Range lo hi) col_name = apply_validator series (Range lo hi) col_name"
proof -
  have 1: "(apply_validator series (Range lo hi) col_name = Inr ())
      = (\<forall>v \<in> set series. v = NoneValue \<or> within_bounds lo hi v)"
    using validate_range_pass_iff [of series lo hi col_name] by simp
  have 2: "(\<forall>v \<in> set series. \<not> is_str v) \<and> (\<exists>v \<in> set series. out_of_bounds lo hi v) \<longrightarrow>
         apply_validator series (Range lo hi) col_name =
           Inl (ValueError (''Column '' @ quote @ col_name @ quote
                  @ '': values must be in range ['' @ str_int lo @ '', '' @ str_int hi @ '']''))"
  proof
    assume a: "(\<forall>v \<in> set series. \<not> is_str v) \<and> (\<exists>v \<in> set series. out_of_bounds lo hi v)"
    then have "list_all (\<lambda>v. \<not> is_str v) series" by (simp add: list_all_iff)
    from validate_range_numbers [OF this, of lo hi col_name] a
    show "apply_validator series (Range lo hi) col_name =
           Inl (ValueError (''Column '' @ quote @ col_name @ quote
                  @ '': values must be in range ['' @ str_int lo @ '', '' @ str_int hi @ '']''))"
      by simp
  qed
  have 3: "(\<exists>v \<in> set series. is_str v) \<longrightarrow>
         (\<exists>m. apply_validator series (Range lo hi) col_name = Inl (TypeError m))"
  proof
    assume "\<exists>v \<in> set series. is_str v"
    then have "\<not> list_all (\<lambda>v. \<not> is_str v) series" by (simp add: list_all_iff)
    from validate_range_strings [OF this, of lo hi col_name]
    show "\<exists>m. apply_validator series (Range lo hi) col_name = Inl (TypeError m)" by simp
  qed
  have 4: "validate_range series (Range lo hi) col_name = apply_validator series (Range lo hi) col_name"
    by simp
  from 1 2 3 4 show ?thesis by (intro conjI)
qed

theorem C5_range_inclusive_witness:
  "apply_validator [IntValue 25, IntValue 30, IntValue 45, IntValue 100] (Range 0 150) ''age'' = Inr ()
   \<and> apply_validator [IntValue 0, NoneValue, IntValue 150] (Range 0 150) ''age'' = Inr ()
   \<and> apply_validator [IntValue 25, IntValue (- 5), IntValue 30] (Range 0 150) ''age''
       = Inl (ValueError (''Column '' @ quote @ ''age'' @ quote @ '': values must be in range [0, 150]''))
   \<and> apply_validator [IntValue 25, NoneValue, IntValue 200] (Range 0 150) ''age''
       = Inl (ValueError (''Column '' @ quote @ ''age'' @ quote @ '': values must be in range [0, 150]''))"
proof -
  have a: "apply_validator [IntValue 25, IntValue 30, IntValue 45, IntValue 100] (Range 0 150) ''age'' = Inr ()"
    using C5_range_inclusive [of "[IntValue 25, IntValue 30, IntValue 45, IntValue 100]" 0 150 "''age''"]
    by (simp add: within_bounds_def)
  have b: "apply_validator [IntValue 0, NoneValue, IntValue 150] (Range 0 150) ''age'' = Inr ()"
    using C5_range_inclusive [of "[IntValue 0, NoneValue, IntValue 150]" 0 150 "''age''"]
    by (simp add: within_bounds_def)
  have c: "apply_validator [IntValue 25, IntValue (- 5), IntValue 30] (Range 0 150) ''age''
       = Inl (ValueError (''Column '' @ quote @ ''age'' @ quote @ '': values must be in range [0, 150]''))"
    using C5_range_inclusive [of "[IntValue 25, IntValue (- 5), IntValue 30]" 0 150 "''age''"]
    by (simp add: out_of_bounds_def str_int_0 str_int_150)
  have d: "apply_validator [IntValue 25, NoneValue, IntValue 200] (Range 0 150) ''age''
       = Inl (ValueError (''Column '' @ quote @ ''age'' @ quote @ '': values must be in range [0, 150]''))"
    using C5_range_inclusive [of "[IntValue 25, NoneValue, IntValue 200]" 0 150 "''age''"]
    by (simp add: out_of_bounds_def str_int_0 str_int_150)
  from a b c d show ?thesis by (intro conjI)
qed

text \<open>
  The claim C5 as first stated fails on a column with a missing value: the column
  \<open>[25, NaN]\<close> passes \<open>Range(0, 150)\<close>, although \<open>0 \<le> v \<le> 150\<close> does not hold of the
  missing value. And on the column \<open>[200, "x"]\<close>, where 200 is above the bound, the
  check raises the \<^verbatim>\<open>TypeError\<close> of the comparison, whose message names neither the
  column nor the range.
\<close>

theorem C5_counterexample:
  "apply_validator [IntValue 25, NoneValue] (Range 0 150) ''age'' = Inr ()
   \<and> NoneValue \<in> set [IntValue 25, NoneValue]
   \<and> \<not> within_bounds 0 150 NoneValue
   \<and> out_of_bounds 0 150 (IntValue 200)
   \<and> apply_validator [IntValue 200, StrValue ''x''] (Range 0 150) ''age''
       = Inl (TypeError (quote @ ''<'' @ quote @ '' not supported between instances of ''
                @ quote @ ''str'' @ quote @ '' and '' @ quote @ ''int'' @ quote))"
  by (simp add: any_true_def within_bounds_def out_of_bounds_def)

text \<open>
  Claim C8. For every validator object that is not a \<open>Range\<close>, \<^verbatim>\<open>apply_validator\<close>
  raises the configuration error \<^verbatim>\<open>ValueError("Unknown validator type: ...")\<close> naming
  the validator's type. No value of the column is evaluated: the outcome is the same for
  every series, the empty one included.
\<close>

theorem C8_unknown_validator:
  "(\<forall>lo hi. validator \<noteq> Range lo hi) \<longrightarrow>
     apply_validator series validator col_name
       = Inl (ValueError (''Unknown validator type: '' @ str_validator_type validator))
     \<and> apply_validator series validator col_name = apply_validator [] validator col_name"
  by (cases validator) auto

theorem C8_unknown_validator_witness:
  "apply_validator [IntValue 25, IntValue (- 5), IntValue 30] (OtherValidator ''Regex'') ''age''
     = Inl (ValueError (''Unknown validator type: <class '' @ quote @ ''Regex'' @ quote @ ''>''))"
  using C8_unknown_validator [of "OtherValidator ''Regex''" "[IntValue 25, IntValue (- 5), IntValue 30]" "''age''"]
  by simp

section \<open>Further properties of the engine\<close>

lemma check_column_exists_cases:
  "check_column_exists df c =
     (if getitem df c = None then ([ExistenceChecked c], Inl (ValueError (''Missing column: '' @ c)))
      else ([ExistenceChecked c], Inr ()))"
  by (simp add: check_column_exists_def in_columns_iff)

lemma check_columns_same:
  "\<forall>c \<in> set (map fst hints). getitem T c = getitem T' c \<Longrightarrow>
   check_columns reg sd T hints = check_columns reg sd T' hints"
proof (induction hints)
  case Nil
  show ?case by simp
next
  case (Cons h hints)
  obtain c t where h: "h = (c, t)" by (cases h)
  from Cons.prems h have g: "getitem T c = getitem T' c" by simp
  from Cons.prems have "\<forall>c \<in> set (map fst hints). getitem T c = getitem T' c" by simp
  then have ih: "check_columns reg sd T hints = check_columns reg sd T' hints" by (rule Cons.IH)
  have ex: "check_column_exists T c = check_column_exists T' c"
    by (simp add: check_column_exists_cases g)
  have ty: "check_column_type reg sd T c t = check_column_type reg sd T' c t"
    unfolding check_column_type_def g by (rule refl)
  show ?case by (simp add: h ih ex ty)
qed

lemma fst_and_then_subset: "set (fst (and_then a b)) \<subseteq> set (fst a) \<union> set (fst b)"
  by (cases a; cases b; cases "snd a") auto

lemma check_column_exists_log: "fst (check_column_exists df c) = [ExistenceChecked c]"
  by (simp add: check_column_exists_def)

lemma check_column_type_log: "set (fst (check_column_type reg sd df c t)) \<subseteq> {CheckerCalled c}"
  by (simp add: check_column_type_def split: option.splits)

lemma check_columns_log:
  "event_column ` set (fst (check_columns reg sd df hints)) \<subseteq> set (map fst hints)"
proof (induction hints)
  case Nil
  show ?case by simp
next
  case (Cons h hints)
  obtain c t where h: "h = (c, t)" by (cases h)
  let ?rest = "check_columns reg sd df hints"
  let ?ty = "check_column_type reg sd df c t"
  have "set (fst (check_columns reg sd df (h # hints)))
          \<subseteq> set (fst (check_column_exists df c)) \<union> (set (fst ?ty) \<union> set (fst ?rest))"
    using fst_and_then_subset [of "check_column_exists df c" "and_then ?ty ?rest"]
          fst_and_then_subset [of ?ty ?rest]
    by (auto simp: h)
  moreover have "set (fst (check_column_exists df c)) \<subseteq> {ExistenceChecked c}"
    by (simp add: check_column_exists_log)
  moreover note check_column_type_log [of reg sd df c t]
  ultimately have "set (fst (check_columns reg sd df (h # hints)))
          \<subseteq> {ExistenceChecked c, CheckerCalled c} \<union> set (fst ?rest)"
    by blast
  then have "event_column ` set (fst (check_columns reg sd df (h # hints)))
          \<subseteq> event_column ` ({ExistenceChecked c, CheckerCalled c} \<union> set (fst ?rest))"
    by (rule image_mono)
  also have "\<dots> \<subseteq> {c} \<union> set (map fst hints)"
    using Cons.IH by auto
  finally show ?case by (simp add: h)
qed

text \<open>
  Claim C7. Columns of the table that the schema does not declare are never read and
  never make validation fail: two tables that agree on every declared column (whatever the
  names, dtypes and contents of their other columns) get the same outcome and the same
  log, and every check in the log is a check of a declared column. This holds for either
  registry.
\<close>

theorem C7_extra_columns_ignored:
  assumes "\<forall>col_name \<in> set (map fst S). getitem T col_name = getitem T' col_name"
  shows "validate_dataframe reg sd T S = validate_dataframe reg sd T' S
       \<and> event_column ` set (fst (validate_dataframe reg sd T S)) \<subseteq> set (map fst S)"
proof -
  have names: "map fst (get_type_hints S) = map fst S"
    by (simp add: get_type_hints_def case_prod_beta comp_def)
  from assms have "\<forall>c \<in> set (map fst (get_type_hints S)). getitem T c = getitem T' c"
    by (simp only: names)
  then have same: "check_columns reg sd T (get_type_hints S) = check_columns reg sd T' (get_type_hints S)"
    by (rule check_columns_same)
  have "event_column ` set (fst (check_columns reg sd T (get_type_hints S))) \<subseteq> set (map fst S)"
    using check_columns_log [of reg sd T "get_type_hints S"] by (simp only: names)
  with same show ?thesis by (simp add: validate_dataframe_def)
qed



theorem C7_extra_columns_ignored_witness:
  "polars_validate_dataframe
       [(''a'', (Int64, [IntValue 1, IntValue 2, IntValue 3])),
        (''b'', (Utf8, [StrValue ''x'', StrValue ''y'', StrValue ''z'']))]
       [(''a'', Plain PyInt)]
     = polars_validate_dataframe
       [(''a'', (Int64, [IntValue 1, IntValue 2, IntValue 3]))]
       [(''a'', Plain PyInt)]
   \<and> polars_validate_dataframe
       [(''a'', (Int64, [IntValue 1, IntValue 2, IntValue 3])),
        (''b'', (Utf8, [StrValue ''x'', StrValue ''y'', StrValue ''z'']))]
       [(''a'', Plain PyInt)]
     = ([ExistenceChecked ''a'', CheckerCalled ''a''], Inr ())"
proof -
  let ?T = "[(''a'', (Int64, [IntValue 1, IntValue 2, IntValue 3])),
             (''b'', (Utf8, [StrValue ''x'', StrValue ''y'', StrValue ''z'']))]"
  let ?T' = "[(''a'', (Int64, [IntValue 1, IntValue 2, IntValue 3]))]"
  let ?S = "[(''a'', Plain PyInt)]"
  have "\<forall>col_name \<in> set (map fst ?S). getitem ?T col_name = getitem ?T' col_name"
    by (simp add: getitem_def)
  from C7_extra_columns_ignored [OF this, of polars_TYPE_CHECKERS str_pl_dtype]
  have same: "polars_validate_dataframe ?T ?S = polars_validate_dataframe ?T' ?S"
    by (simp add: polars_validate_dataframe_def)
  have "polars_validate_dataframe ?T' ?S = ([ExistenceChecked ''a'', CheckerCalled ''a''], Inr ())"
    by (simp add: polars_validate_dataframe_def validate_dataframe_def get_type_hints_def
        check_column_exists_def check_column_type_def columns_def getitem_def dtype_def
        polars_TYPE_CHECKERS_def)
  with same show ?thesis by simp
qed

lemma column_not_ok_fails:
  assumes "\<not> column_ok reg df (c, t)"
  shows "and_then (check_column_exists df c) (and_then (check_column_type reg sd df c t) rest)
           = and_then (check_column_exists df c) (check_column_type reg sd df c t)
         \<and> (\<exists>e. snd (and_then (check_column_exists df c) (check_column_type reg sd df c t)) = Inl e)"
proof (cases "getitem df c")
  case None
  then show ?thesis by (simp add: check_column_exists_cases)
next
  case (Some column)
  show ?thesis
  proof (cases "reg t")
    case None
    then show ?thesis using Some by (simp add: check_column_exists_cases check_column_type_def)
  next
    case (Some chk)
    with assms \<open>getitem df c = Some column\<close> have "\<not> chk (dtype column)"
      by (simp add: column_ok_def satisfies_def)
    then show ?thesis using Some \<open>getitem df c = Some column\<close>
      by (cases rest) (simp add: check_column_exists_cases check_column_type_def)
  qed
qed

lemma check_columns_ok_iff:
  "(snd (check_columns reg sd df hints) = Inr ()) = list_all (column_ok reg df) hints"
proof (induction hints)
  case Nil
  show ?case by simp
next
  case (Cons h hints)
  obtain c t where h: "h = (c, t)" by (cases h)
  show ?case
  proof (cases "column_ok reg df (c, t)")
    case False
    from column_not_ok_fails [OF False, of sd "check_columns reg sd df hints"]
    show ?thesis using False by (auto simp: h)
  next
    case True
    then have "list_all (column_ok reg df) [(c, t)]" by simp
    from check_columns_append_ok [OF this, of sd hints]
    show ?thesis using True Cons.IH by (simp add: h)
  qed
qed

lemma check_columns_prefix_fails:
  "\<not> list_all (column_ok reg df) pre \<Longrightarrow>
   check_columns reg sd df (pre @ rest) = check_columns reg sd df pre"
proof (induction pre)
  case Nil
  then show ?case by simp
next
  case (Cons h pre)
  obtain c t where h: "h = (c, t)" by (cases h)
  show ?case
  proof (cases "column_ok reg df (c, t)")
    case False
    from column_not_ok_fails [OF False, of sd "check_columns reg sd df (pre @ rest)"]
         column_not_ok_fails [OF False, of sd "check_columns reg sd df pre"]
    show ?thesis by (auto simp: h)
  next
    case True
    with Cons.prems h have "\<not> list_all (column_ok reg df) pre" by simp
    then have "check_columns reg sd df (pre @ rest) = check_columns reg sd df pre"
      by (rule Cons.IH)
    then show ?thesis by (simp add: h)
  qed
qed

lemma get_type_hints_append:
  "get_type_hints (pre @ (c, a) # post) = get_type_hints pre @ (c, strip_annotated a) # get_type_hints post"
  by (simp add: get_type_hints_def)

section \<open>Success, and the order of failures\<close>

lemma passed_log_checker: "(CheckerCalled c \<in> set (passed_log hints)) = (c \<in> set (map fst hints))"
  by (induction hints) (auto simp: passed_log_def)

lemma column_ok_in_columns: "column_ok reg df (c, t) \<Longrightarrow> c \<in> set (columns df)"
  by (simp add: column_ok_def in_columns_iff split: option.splits)

lemma all_ok_in_columns:
  "list_all (column_ok reg df) hints \<Longrightarrow> c \<in> set (map fst hints) \<Longrightarrow> c \<in> set (columns df)"
  by (induction hints) (auto dest: column_ok_in_columns)

lemma fails_or_ok: "(\<exists>e. snd (r :: unit outcome) = Inl e) = (snd r \<noteq> Inr ())"
  by (cases "snd r") auto

lemma check_columns_missing_head:
  "c \<notin> set (columns df) \<Longrightarrow>
   check_columns reg sd df ((c, t) # rest) = ([ExistenceChecked c], Inl (ValueError (''Missing column: '' @ c)))"
  by (simp add: check_column_exists_def)

lemma check_columns_unsupported_head:
  "c \<in> set (columns df) \<Longrightarrow> reg t = None \<Longrightarrow>
   check_columns reg sd df ((c, t) # rest) =
     ([ExistenceChecked c], Inl (ValueError (''Unsupported type: '' @ str_type t)))"
  by (simp add: check_column_exists_def check_column_type_def)

text \<open>
  Claim C2. Let \<open>T\<close> be a table and \<open>S\<close> a schema each of whose declared columns is in
  \<open>T\<close> with a dtype that the polars registry accepts for the declared type. Then
  validation raises nothing. When \<open>data\<close> is a dataframe object holding \<open>T\<close>,
  \<^verbatim>\<open>DataFrame[S](data)\<close> returns the address it was given and leaves the store as it was:
  the very same object, not a copy. When \<open>data\<close> is raw input from which polars builds
  \<open>T\<close>, the result is the new dataframe object holding \<open>T\<close>. The attached constraints
  play no part in the engine, so the statement needs no hypothesis about them and holds in
  particular when they all pass.
\<close>

theorem C2_valid_table_returned_by_identity:
  assumes "data < length heap"
    and "list_all (column_ok polars_TYPE_CHECKERS T) (get_type_hints S)"
  shows "polars_validate_dataframe T S = (passed_log (get_type_hints S), Inr ())
       \<and> (heap ! data = DataFrameObject c T \<longrightarrow>
             DataFrame_new pl_DataFrame (class_getitem cls S) data args heap
               = ((passed_log (get_type_hints S), Inr data), heap))
       \<and> (heap ! data = RawObject raw \<and> pl_DataFrame raw args = Inr T \<longrightarrow>
             DataFrame_new pl_DataFrame (class_getitem cls S) data args heap
               = ((passed_log (get_type_hints S), Inr (length heap)),
                  heap @ [DataFrameObject PlDataFrame T]))"
proof -
  from assms(2) have v: "polars_validate_dataframe T S = (passed_log (get_type_hints S), Inr ())"
    unfolding polars_validate_dataframe_def validate_dataframe_def by (rule check_columns_ok)
  then show ?thesis
    by (simp add: DataFrame_new_def class_getitem_def)
qed

text \<open>
  Claim C3, as amended. Let column \<open>c\<close> be declared in \<open>S\<close> and absent from \<open>T\<close>. Then
  validation fails. If every column declared before \<open>c\<close> is in \<open>T\<close> with a satisfying
  dtype, the failure is \<^verbatim>\<open>ValueError("Missing column: c")\<close>, raised right after the
  existence check of \<open>c\<close>, and no type check of \<open>c\<close> is in the log. Otherwise the engine,
  being fail-fast, stops at an earlier column: the outcome is the one that the columns
  declared before \<open>c\<close> produce on their own.
\<close>

theorem C3_first_missing_column:
  assumes "S = pre @ (c, a) # post" and "c \<notin> set (columns T)"
  shows "(\<exists>e. snd (validate_dataframe reg sd T S) = Inl e)
       \<and> (list_all (column_ok reg T) (get_type_hints pre) \<longrightarrow>
            validate_dataframe reg sd T S =
              (passed_log (get_type_hints pre) @ [ExistenceChecked c],
               Inl (ValueError (''Missing column: '' @ c)))
            \<and> CheckerCalled c \<notin> set (fst (validate_dataframe reg sd T S)))
       \<and> (\<not> list_all (column_ok reg T) (get_type_hints pre) \<longrightarrow>
            validate_dataframe reg sd T S = validate_dataframe reg sd T pre)"
proof -
  let ?t = "strip_annotated a"
  let ?hp = "get_type_hints pre"
  let ?rest = "(c, ?t) # get_type_hints post"
  have hints: "get_type_hints S = ?hp @ ?rest"
    using assms(1) by (simp add: get_type_hints_append)
  have notok: "\<not> column_ok reg T (c, ?t)"
    using assms(2) column_ok_in_columns by blast
  then have "\<not> list_all (column_ok reg T) (get_type_hints S)"
    by (simp add: hints)
  then have fails: "\<exists>e. snd (validate_dataframe reg sd T S) = Inl e"
    by (simp add: fails_or_ok validate_dataframe_def check_columns_ok_iff)
  have head: "check_columns reg sd T ?rest = ([ExistenceChecked c], Inl (ValueError (''Missing column: '' @ c)))"
    using assms(2) by (rule check_columns_missing_head)
  have good: "validate_dataframe reg sd T S =
              (passed_log ?hp @ [ExistenceChecked c], Inl (ValueError (''Missing column: '' @ c)))
            \<and> CheckerCalled c \<notin> set (fst (validate_dataframe reg sd T S))"
    if ok: "list_all (column_ok reg T) ?hp"
  proof -
    have r: "validate_dataframe reg sd T S =
              (passed_log ?hp @ [ExistenceChecked c], Inl (ValueError (''Missing column: '' @ c)))"
      using check_columns_append_ok [OF ok, of sd ?rest]
      by (simp only: validate_dataframe_def hints head fst_conv snd_conv)
    have "c \<notin> set (map fst ?hp)"
      using all_ok_in_columns [OF ok] assms(2) by blast
    then have "CheckerCalled c \<notin> set (passed_log ?hp)"
      by (simp only: passed_log_checker not_False_eq_True)
    with r show ?thesis by simp
  qed
  have bad: "validate_dataframe reg sd T S = validate_dataframe reg sd T pre"
    if "\<not> list_all (column_ok reg T) ?hp"
    using check_columns_prefix_fails [OF that, of sd ?rest]
    by (simp add: validate_dataframe_def hints)
  from fails good bad show ?thesis by blast
qed

text \<open>
  Claim C6, as amended. Let \<open>S\<close> declare for column \<open>c\<close> a type that the registry does
  not hold, and let \<open>T\<close> contain \<open>c\<close>. Then validation fails. If every column declared
  before \<open>c\<close> is in \<open>T\<close> with a satisfying dtype, the failure is
  \<^verbatim>\<open>ValueError("Unsupported type: ...")\<close> for the declared type, whatever the dtype of
  \<open>c\<close> is, and (column names being unique) no predicate is called for \<open>c\<close>. Otherwise
  the engine stops at an earlier column, with the outcome that the columns declared before
  \<open>c\<close> produce on their own.
\<close>

theorem C6_unsupported_type:
  assumes "S = pre @ (c, a) # post" and "reg (strip_annotated a) = None"
    and "c \<in> set (columns T)"
  shows "(\<exists>e. snd (validate_dataframe reg sd T S) = Inl e)
       \<and> (list_all (column_ok reg T) (get_type_hints pre) \<longrightarrow>
            validate_dataframe reg sd T S =
              (passed_log (get_type_hints pre) @ [ExistenceChecked c],
               Inl (ValueError (''Unsupported type: '' @ str_type (strip_annotated a))))
            \<and> (c \<notin> set (map fst pre) \<longrightarrow> CheckerCalled c \<notin> set (fst (validate_dataframe reg sd T S))))
       \<and> (\<not> list_all (column_ok reg T) (get_type_hints pre) \<longrightarrow>
            validate_dataframe reg sd T S = validate_dataframe reg sd T pre)"
proof -
  let ?t = "strip_annotated a"
  let ?hp = "get_type_hints pre"
  let ?rest = "(c, ?t) # get_type_hints post"
  have hints: "get_type_hints S = ?hp @ ?rest"
    using assms(1) by (simp add: get_type_hints_append)
  have names: "map fst ?hp = map fst pre"
    by (simp add: get_type_hints_def case_prod_beta comp_def)
  have notok: "\<not> column_ok reg T (c, ?t)"
    using assms(2) by (simp add: column_ok_def satisfies_def split: option.splits)
  then have "\<not> list_all (column_ok reg T) (get_type_hints S)"
    by (simp add: hints)
  then have fails: "\<exists>e. snd (validate_dataframe reg sd T S) = Inl e"
    by (simp add: fails_or_ok validate_dataframe_def check_columns_ok_iff)
  have head: "check_columns reg sd T ?rest =
      ([ExistenceChecked c], Inl (ValueError (''Unsupported type: '' @ str_type ?t)))"
    using assms(3) assms(2) by (rule check_columns_unsupported_head)
  have good: "validate_dataframe reg sd T S =
              (passed_log ?hp @ [ExistenceChecked c], Inl (ValueError (''Unsupported type: '' @ str_type ?t)))
            \<and> (c \<notin> set (map fst pre) \<longrightarrow> CheckerCalled c \<notin> set (fst (validate_dataframe reg sd T S)))"
    if ok: "list_all (column_ok reg T) ?hp"
  proof -
    have r: "validate_dataframe reg sd T S =
              (passed_log ?hp @ [ExistenceChecked c], Inl (ValueError (''Unsupported type: '' @ str_type ?t)))"
      using check_columns_append_ok [OF ok, of sd ?rest]
      by (simp only: validate_dataframe_def hints head fst_conv snd_conv)
    have "CheckerCalled c \<notin> set (passed_log ?hp)" if "c \<notin> set (map fst pre)"
      using that by (simp only: passed_log_checker names not_False_eq_True)
    with r show ?thesis by simp
  qed
  have bad: "validate_dataframe reg sd T S = validate_dataframe reg sd T pre"
    if "\<not> list_all (column_ok reg T) ?hp"
    using check_columns_prefix_fails [OF that, of sd ?rest]
    by (simp add: validate_dataframe_def hints)
  from fails good bad show ?thesis by blast
qed


lemmas engine_defs =
  polars_validate_dataframe_def core_validate_dataframe_def validate_dataframe_def
  get_type_hints_def check_column_exists_def check_column_type_def columns_def getitem_def
  dtype_def polars_TYPE_CHECKERS_def core_TYPE_CHECKERS_def column_ok_def satisfies_def
  passed_log_def str_type_def quote_def

theorem C2_valid_table_returned_by_identity_witness:
  "DataFrame_new (\<lambda>(raw :: unit) (args :: unit). Inl (TypeError []))
       (class_getitem DataFrame [(''age'', Annotated PyInt [Range 0 150])]) 0 ()
       [DataFrameObject PlDataFrame [(''age'', (Int64, [IntValue 25, IntValue 30, IntValue 45, IntValue 100]))]]
     = (([ExistenceChecked ''age'', CheckerCalled ''age''], Inr 0),
        [DataFrameObject PlDataFrame [(''age'', (Int64, [IntValue 25, IntValue 30, IntValue 45, IntValue 100]))]])"
proof -
  let ?T = "[(''age'', (Int64, [IntValue 25, IntValue 30, IntValue 45, IntValue 100]))]"
  let ?S = "[(''age'', Annotated PyInt [Range 0 150])]"
  let ?heap = "[DataFrameObject PlDataFrame ?T] :: (pyvalue, unit) object list"
  have 1: "0 < length ?heap" by simp
  have 2: "?heap ! 0 = DataFrameObject PlDataFrame ?T" by simp
  have 3: "list_all (column_ok polars_TYPE_CHECKERS ?T) (get_type_hints ?S)"
    by (simp add: engine_defs)
  from C2_valid_table_returned_by_identity [OF 1 3, where c = PlDataFrame
      and pl_DataFrame = "\<lambda>raw args. Inl (TypeError [])" and cls = DataFrame and args = "()"] 2
  show ?thesis by (simp add: engine_defs)
qed

text \<open>
  The claim C3 as first stated fails: with schema \<open>{a: int, b: int}\<close> and a table whose only
  column \<open>a\<close> holds strings, \<open>b\<close> is declared and absent, yet validation raises the type
  error of \<open>a\<close>, not a missing-column error.
\<close>

theorem C3_counterexample:
  "''b'' \<in> set (map fst [(''a'', Plain PyInt), (''b'', Plain PyInt)])
   \<and> ''b'' \<notin> set (columns [(''a'', (Utf8, [StrValue ''x'', StrValue ''y'']))])
   \<and> polars_validate_dataframe [(''a'', (Utf8, [StrValue ''x'', StrValue ''y'']))]
        [(''a'', Plain PyInt), (''b'', Plain PyInt)]
      = ([ExistenceChecked ''a'', CheckerCalled ''a''],
         Inl (TypeError (''Column '' @ quote @ ''a'' @ quote @ '' expected int, got Utf8'')))
   \<and> snd (polars_validate_dataframe [(''a'', (Utf8, [StrValue ''x'', StrValue ''y'']))]
        [(''a'', Plain PyInt), (''b'', Plain PyInt)])
      \<noteq> Inl (ValueError ''Missing column: b'')"
  by (simp add: engine_defs)

theorem C3_first_missing_column_witness:
  "polars_validate_dataframe [(''x'', (Int64, [IntValue 1, IntValue 2]))]
        [(''x'', Plain PyInt), (''a'', Plain PyInt), (''z'', Plain PyStr)]
      = ([ExistenceChecked ''x'', CheckerCalled ''x'', ExistenceChecked ''a''],
         Inl (ValueError ''Missing column: a''))
   \<and> CheckerCalled ''a'' \<notin> set (fst (polars_validate_dataframe [(''x'', (Int64, [IntValue 1, IntValue 2]))]
        [(''x'', Plain PyInt), (''a'', Plain PyInt), (''z'', Plain PyStr)]))"
proof -
  let ?T = "[(''x'', (Int64, [IntValue 1, IntValue 2]))]"
  let ?pre = "[(''x'', Plain PyInt)]"
  let ?post = "[(''z'', Plain PyStr)]"
  let ?S = "[(''x'', Plain PyInt), (''a'', Plain PyInt), (''z'', Plain PyStr)]"
  have 1: "?S = ?pre @ (''a'', Plain PyInt) # ?post" by simp
  have 2: "''a'' \<notin> set (columns ?T)" by (simp add: columns_def)
  have 3: "list_all (column_ok polars_TYPE_CHECKERS ?T) (get_type_hints ?pre)"
    by (simp add: engine_defs)
  from C3_first_missing_column [OF 1 2, of polars_TYPE_CHECKERS str_pl_dtype] 3
  have "validate_dataframe polars_TYPE_CHECKERS str_pl_dtype ?T ?S =
          (passed_log (get_type_hints ?pre) @ [ExistenceChecked ''a''],
           Inl (ValueError (''Missing column: '' @ ''a'')))
        \<and> CheckerCalled ''a'' \<notin> set (fst (validate_dataframe polars_TYPE_CHECKERS str_pl_dtype ?T ?S))"
    by blast
  then show ?thesis
    by (simp add: polars_validate_dataframe_def passed_log_def get_type_hints_def)
qed

text \<open>
  The claim C6 as first stated fails: with schema \<open>{a: int, d: Decimal}\<close> and a table that
  holds \<open>d\<close> and a string column \<open>a\<close>, validation raises the type error of \<open>a\<close>, not
  an unsupported-type error.
\<close>

theorem C6_counterexample:
  "polars_TYPE_CHECKERS (PyOther ''Decimal'') = None
   \<and> ''d'' \<in> set (columns [(''a'', (Utf8, [StrValue ''x''])), (''d'', (Int64, [IntValue 1]))])
   \<and> polars_validate_dataframe [(''a'', (Utf8, [StrValue ''x''])), (''d'', (Int64, [IntValue 1]))]
        [(''a'', Plain PyInt), (''d'', Plain (PyOther ''Decimal''))]
      = ([ExistenceChecked ''a'', CheckerCalled ''a''],
         Inl (TypeError (''Column '' @ quote @ ''a'' @ quote @ '' expected int, got Utf8'')))
   \<and> snd (polars_validate_dataframe [(''a'', (Utf8, [StrValue ''x''])), (''d'', (Int64, [IntValue 1]))]
        [(''a'', Plain PyInt), (''d'', Plain (PyOther ''Decimal''))])
      \<noteq> Inl (ValueError (''Unsupported type: '' @ str_type (PyOther ''Decimal'')))"
  by (simp add: engine_defs)

theorem C6_unsupported_type_witness:
  "polars_validate_dataframe [(''a'', (Int64, [IntValue 1])), (''d'', (Utf8, [StrValue ''1.5'']))]
        [(''a'', Plain PyInt), (''d'', Plain (PyOther ''Decimal''))]
      = ([ExistenceChecked ''a'', CheckerCalled ''a'', ExistenceChecked ''d''],
         Inl (ValueError (''Unsupported type: <class '' @ quote @ ''Decimal'' @ quote @ ''>'')))
   \<and> CheckerCalled ''d'' \<notin> set (fst (polars_validate_dataframe
        [(''a'', (Int64, [IntValue 1])), (''d'', (Utf8, [StrValue ''1.5'']))]
        [(''a'', Plain PyInt), (''d'', Plain (PyOther ''Decimal''))]))"
proof -
  let ?T = "[(''a'', (Int64, [IntValue 1])), (''d'', (Utf8, [StrValue ''1.5'']))]"
  let ?pre = "[(''a'', Plain PyInt)]"
  let ?S = "[(''a'', Plain PyInt), (''d'', Plain (PyOther ''Decimal''))]"
  have 1: "?S = ?pre @ (''d'', Plain (PyOther ''Decimal'')) # []" by simp
  have 2: "polars_TYPE_CHECKERS (strip_annotated (Plain (PyOther ''Decimal''))) = None"
    by (simp add: polars_TYPE_CHECKERS_def)
  have 3: "''d'' \<in> set (columns ?T)" by (simp add: columns_def)
  have 4: "list_all (column_ok polars_TYPE_CHECKERS ?T) (get_type_hints ?pre)"
    by (simp add: engine_defs)
  have 5: "''d'' \<notin> set (map fst ?pre)" by simp
  from C6_unsupported_type [where reg = polars_TYPE_CHECKERS and sd = str_pl_dtype, OF 1 2 3] 4 5
  have "validate_dataframe polars_TYPE_CHECKERS str_pl_dtype ?T ?S =
          (passed_log (get_type_hints ?pre) @ [ExistenceChecked ''d''],
           Inl (ValueError (''Unsupported type: '' @ str_type (strip_annotated (Plain (PyOther ''Decimal''))))))
        \<and> CheckerCalled ''d'' \<notin> set (fst (validate_dataframe polars_TYPE_CHECKERS str_pl_dtype ?T ?S))"
    by blast
  then show ?thesis
    by (simp add: polars_validate_dataframe_def passed_log_def get_type_hints_def str_type_def)
qed

section \<open>Exception classes, the wrapper, and two divergences from the tests\<close>

lemma check_columns_error:
  "snd (check_columns reg sd df hints) = Inl e \<Longrightarrow>
     \<exists>c t. (c, t) \<in> set hints \<and> raised_by reg sd df e c t"
proof (induction hints)
  case Nil
  then show ?case by simp
next
  case (Cons h hints)
  obtain c t where h: "h = (c, t)" by (cases h)
  have here: "\<exists>c t. (c, t) \<in> set (h # hints) \<and> raised_by reg sd df e c t"
    if "raised_by reg sd df e c t"
    using that unfolding h by (intro exI [of _ c] exI [of _ t]) simp
  show ?case
  proof (cases "getitem df c")
    case None
    then have "c \<notin> set (columns df)" by (simp add: in_columns_iff)
    moreover from None Cons.prems have "e = ValueError (''Missing column: '' @ c)"
      by (simp add: h check_column_exists_cases)
    ultimately have "raised_by reg sd df e c t" by (simp add: raised_by_def)
    then show ?thesis by (rule here)
  next
    case (Some column)
    then have inc: "c \<in> set (columns df)" by (simp add: in_columns_iff)
    show ?thesis
    proof (cases "reg t")
      case None
      with Some Cons.prems have "e = ValueError (''Unsupported type: '' @ str_type t)"
        by (simp add: h check_column_exists_cases check_column_type_def)
      with inc None have "raised_by reg sd df e c t" by (simp add: raised_by_def)
      then show ?thesis by (rule here)
    next
      case (Some chk)
      show ?thesis
      proof (cases "chk (dtype column)")
        case False
        with Some \<open>getitem df c = Some column\<close> Cons.prems
        have "e = TypeError (''Column '' @ quote @ c @ quote @ '' expected '' @ type_name t
                                @ '', got '' @ sd (dtype column))"
          by (simp add: h check_column_exists_cases check_column_type_def)
        with False Some \<open>getitem df c = Some column\<close> have "raised_by reg sd df e c t"
          by (simp add: raised_by_def)
        then show ?thesis by (rule here)
      next
        case True
        with Some \<open>getitem df c = Some column\<close> Cons.prems
        have "snd (check_columns reg sd df hints) = Inl e"
          by (cases "check_columns reg sd df hints")
             (simp add: h check_column_exists_cases check_column_type_def)
        from Cons.IH [OF this] obtain c' t' where
          "(c', t') \<in> set hints" and "raised_by reg sd df e c' t'" by blast
        then show ?thesis by (intro exI [of _ c'] exI [of _ t']) simp
      qed
    qed
  qed
qed

lemma messages_differ: "''Missing column: '' @ c \<noteq> ''Unsupported type: '' @ str_type t"
  by simp

text \<open>
  Claim C9. Whenever validation fails, the exception is the error of one declared column,
  of one of three kinds: a missing column and an unregistered type are both raised as
  \<^verbatim>\<open>ValueError\<close>, a dtype mismatch as \<^verbatim>\<open>TypeError\<close>. So the class of the exception is
  the same for a missing column and for an unsupported type; only the message text, which
  starts differently, tells them apart. This holds for either registry.
\<close>

theorem C9_error_classes:
  assumes "snd (validate_dataframe reg sd df S) = Inl e"
  shows "(\<exists>c t. (c, t) \<in> set (get_type_hints S) \<and>
           ((c \<notin> set (columns df) \<and> e = ValueError (''Missing column: '' @ c)
               \<and> class_of e = ValueErrorClass)
            \<or> (c \<in> set (columns df) \<and> reg t = None
               \<and> e = ValueError (''Unsupported type: '' @ str_type t)
               \<and> class_of e = ValueErrorClass)
            \<or> (\<exists>chk column. reg t = Some chk \<and> getitem df c = Some column \<and> \<not> chk (dtype column)
               \<and> e = TypeError (''Column '' @ quote @ c @ quote @ '' expected '' @ type_name t
                                  @ '', got '' @ sd (dtype column))
               \<and> class_of e = TypeErrorClass)))
       \<and> (\<forall>c t. class_of (ValueError (''Missing column: '' @ c))
                  = class_of (ValueError (''Unsupported type: '' @ str_type t))
                \<and> ''Missing column: '' @ c \<noteq> ''Unsupported type: '' @ str_type t)"
proof -
  from assms have "snd (check_columns reg sd df (get_type_hints S)) = Inl e"
    by (simp add: validate_dataframe_def)
  from check_columns_error [OF this]
  have 1: "\<exists>c t. (c, t) \<in> set (get_type_hints S) \<and> raised_by reg sd df e c t" .
  have 2: "\<forall>c t. class_of (ValueError (''Missing column: '' @ c))
                  = class_of (ValueError (''Unsupported type: '' @ str_type t))
                \<and> ''Missing column: '' @ c \<noteq> ''Unsupported type: '' @ str_type t"
    using messages_differ by simp
  from 1 [unfolded raised_by_def] 2 show ?thesis by (rule conjI)
qed

theorem C9_error_classes_witness:
  "core_validate_dataframe pd_api id [(''b'', (''int64'', [IntValue 1, IntValue 2, IntValue 3]))]
       [(''a'', Plain PyInt)]
     = ([ExistenceChecked ''a''], Inl (ValueError ''Missing column: a''))
   \<and> core_validate_dataframe pd_api id [(''a'', (''int64'', [IntValue 1, IntValue 2, IntValue 3]))]
       [(''a'', Plain PyDatetime)]
     = ([ExistenceChecked ''a''],
        Inl (ValueError (''Unsupported type: <class '' @ quote @ ''datetime.datetime'' @ quote @ ''>'')))
   \<and> core_validate_dataframe pd_api id [(''a'', (''object'', [StrValue ''x'', StrValue ''y'']))]
       [(''a'', Plain PyInt)]
     = ([ExistenceChecked ''a'', CheckerCalled ''a''],
        Inl (TypeError (''Column '' @ quote @ ''a'' @ quote @ '' expected int, got object'')))
   \<and> class_of (ValueError ''Missing column: a'')
     = class_of (ValueError (''Unsupported type: <class '' @ quote @ ''datetime.datetime'' @ quote @ ''>''))"
proof -
  let ?df = "[(''b'', (''int64'', [IntValue 1, IntValue 2, IntValue 3]))]"
  let ?S = "[(''a'', Plain PyInt)]"
  have a: "core_validate_dataframe pd_api id ?df ?S
     = ([ExistenceChecked ''a''], Inl (ValueError ''Missing column: a''))"
    by (simp add: engine_defs)
  then have "snd (validate_dataframe (core_TYPE_CHECKERS pd_api) id ?df ?S)
     = Inl (ValueError ''Missing column: a'')"
    by (simp add: core_validate_dataframe_def)
  from C9_error_classes [OF this]
  have cls: "class_of (ValueError (''Missing column: '' @ ''a''))
     = class_of (ValueError (''Unsupported type: '' @ str_type PyDatetime))"
    by blast
  have b: "core_validate_dataframe pd_api id [(''a'', (''int64'', [IntValue 1, IntValue 2, IntValue 3]))]
       [(''a'', Plain PyDatetime)]
     = ([ExistenceChecked ''a''],
        Inl (ValueError (''Unsupported type: <class '' @ quote @ ''datetime.datetime'' @ quote @ ''>'')))"
    by (simp add: engine_defs)
  have c: "core_validate_dataframe pd_api id [(''a'', (''object'', [StrValue ''x'', StrValue ''y'']))]
       [(''a'', Plain PyInt)]
     = ([ExistenceChecked ''a'', CheckerCalled ''a''],
        Inl (TypeError (''Column '' @ quote @ ''a'' @ quote @ '' expected int, got object'')))"
    by (simp add: engine_defs pd_api_def)
  from cls have cls': "class_of (ValueError ''Missing column: a'')
     = class_of (ValueError (''Unsupported type: <class '' @ quote @ ''datetime.datetime'' @ quote @ ''>''))"
    by (simp add: str_type_def)
  from a b c cls' show ?thesis by (intro conjI)
qed

lemma validators_ignored:
  "get_type_hints (map (\<lambda>(col_name, a). (col_name, Plain (strip_annotated a))) S) = get_type_hints S"
  by (induction S) (auto simp: get_type_hints_def)

text \<open>
  Claim C1 asks that the engine hand every attached constraint to the dispatcher, so that
  schema \<open>{age: Annotated[int, Range(0, 150)]}\<close> with table \<open>{age: [25, -5, 30]}\<close> fails.
  The code does not: \<^verbatim>\<open>DataFrame[AgeSchema](df)\<close> returns the table, and so does the
  engine of \<^verbatim>\<open>_core/validation.py\<close>, although the dispatcher, applied to the same
  values, raises the range error. The engine's outcome never depends on the validators.
\<close>

theorem C1_constraints_never_dispatched:
  "DataFrame_new pl_DataFrame (class_getitem DataFrame [(''age'', Annotated PyInt [Range 0 150])]) 0 args
       [DataFrameObject PlDataFrame [(''age'', (Int64, [IntValue 25, IntValue (- 5), IntValue 30]))]]
     = (([ExistenceChecked ''age'', CheckerCalled ''age''], Inr 0),
        [DataFrameObject PlDataFrame [(''age'', (Int64, [IntValue 25, IntValue (- 5), IntValue 30]))]])
   \<and> core_validate_dataframe pd_api id [(''age'', (''int64'', [IntValue 25, IntValue (- 5), IntValue 30]))]
        [(''age'', Annotated PyInt [Range 0 150])]
     = ([ExistenceChecked ''age'', CheckerCalled ''age''], Inr ())
   \<and> apply_validator [IntValue 25, IntValue (- 5), IntValue 30] (Range 0 150) ''age''
     = Inl (ValueError (''Column '' @ quote @ ''age'' @ quote @ '': values must be in range [0, 150]''))
   \<and> validate_dataframe reg sd T S
     = validate_dataframe reg sd T (map (\<lambda>(col_name, a). (col_name, Plain (strip_annotated a))) S)"
proof -
  have a: "DataFrame_new pl_DataFrame (class_getitem DataFrame [(''age'', Annotated PyInt [Range 0 150])]) 0 args
       [DataFrameObject PlDataFrame [(''age'', (Int64, [IntValue 25, IntValue (- 5), IntValue 30]))]]
     = (([ExistenceChecked ''age'', CheckerCalled ''age''], Inr 0),
        [DataFrameObject PlDataFrame [(''age'', (Int64, [IntValue 25, IntValue (- 5), IntValue 30]))]])"
    by (simp add: DataFrame_new_def class_getitem_def engine_defs)
  have b: "core_validate_dataframe pd_api id [(''age'', (''int64'', [IntValue 25, IntValue (- 5), IntValue 30]))]
        [(''age'', Annotated PyInt [Range 0 150])]
     = ([ExistenceChecked ''age'', CheckerCalled ''age''], Inr ())"
    by (simp add: engine_defs pd_api_def)
  have c: "apply_validator [IntValue 25, IntValue (- 5), IntValue 30] (Range 0 150) ''age''
     = Inl (ValueError (''Column '' @ quote @ ''age'' @ quote @ '': values must be in range [0, 150]''))"
    by (simp add: any_true_def str_int_0 str_int_150)
  have d: "validate_dataframe reg sd T S
     = validate_dataframe reg sd T (map (\<lambda>(col_name, a). (col_name, Plain (strip_annotated a))) S)"
    by (simp only: validate_dataframe_def validators_ignored)
  from a b c d show ?thesis by (intro conjI)
qed

text \<open>
  Claim C4 asks that the polars registry support \<^verbatim>\<open>datetime\<close>, \<^verbatim>\<open>date\<close> and
  \<^verbatim>\<open>timedelta\<close>. The registry of \<^verbatim>\<open>polars.py\<close> has no entry for any of them: a table
  with the matching native dtypes is rejected with \<^verbatim>\<open>ValueError("Unsupported type: ...")\<close>,
  and so is a table with a string column in place of the datetime column, where the claim
  asks for a type mismatch.
\<close>

theorem C4_datetime_types_unsupported:
  "polars_TYPE_CHECKERS PyDatetime = None
   \<and> polars_TYPE_CHECKERS PyDate = None
   \<and> polars_TYPE_CHECKERS PyTimedelta = None
   \<and> polars_validate_dataframe
        [(''created_at'', (Datetime, vs1)), (''event_date'', (Date, vs2)), (''duration'', (Duration, vs3))]
        [(''created_at'', Plain PyDatetime), (''event_date'', Plain PyDate), (''duration'', Plain PyTimedelta)]
     = ([ExistenceChecked ''created_at''],
        Inl (ValueError (''Unsupported type: <class '' @ quote @ ''datetime.datetime'' @ quote @ ''>'')))
   \<and> polars_validate_dataframe
        [(''created_at'', (Utf8, vs1)), (''event_date'', (Date, vs2)), (''duration'', (Duration, vs3))]
        [(''created_at'', Plain PyDatetime), (''event_date'', Plain PyDate), (''duration'', Plain PyTimedelta)]
     = ([ExistenceChecked ''created_at''],
        Inl (ValueError (''Unsupported type: <class '' @ quote @ ''datetime.datetime'' @ quote @ ''>'')))"
  by (simp add: engine_defs)

text \<open>
  Claim C10. No call of the wrapper's \<^verbatim>\<open>__new__\<close> ever creates an instance of a wrapper
  class: in a store without such instances, a successful \<^verbatim>\<open>DataFrame[S](data)\<close> returns
  a dataframe that is no wrapper instance and leaves the store without wrapper instances.
  For dataframe input the result is the input object, the store is unchanged, and the
  constructor and the extra arguments play no part; for raw input the result is a new
  object of class \<^verbatim>\<open>pl.DataFrame\<close>, allocated at the end of the store.
\<close>

theorem C10_result_is_plain_dataframe:
  assumes "data < length heap"
    and "list_all (\<lambda>ob. \<not> is_wrapper_instance ob) heap"
    and "DataFrame_new pl_DataFrame (class_getitem cls S) data args heap = ((log, Inr result), heap')"
  shows "result < length heap' \<and> \<not> is_wrapper_instance (heap' ! result)
       \<and> isinstance_pl_DataFrame (heap' ! result)
       \<and> list_all (\<lambda>ob. \<not> is_wrapper_instance ob) heap'
       \<and> (isinstance_pl_DataFrame (heap ! data) \<longrightarrow>
             result = data \<and> heap' = heap
             \<and> DataFrame_new pl_DataFrame2 (class_getitem cls S) data args2 heap = ((log, Inr result), heap'))
       \<and> (\<not> isinstance_pl_DataFrame (heap ! data) \<longrightarrow>
             result = length heap
             \<and> (\<exists>raw df. heap ! data = RawObject raw \<and> pl_DataFrame raw args = Inr df
                   \<and> heap' = heap @ [DataFrameObject PlDataFrame df]))"
proof (cases "heap ! data")
  case (DataFrameObject c df)
  obtain l r where v: "polars_validate_dataframe df S = (l, r)" by (cases "polars_validate_dataframe df S")
  from assms(3) DataFrameObject v have r: "r = Inr ()" and res: "log = l" "result = data" "heap' = heap"
    by (cases r; simp add: DataFrame_new_def class_getitem_def)+
  from assms(1,2) have plain: "\<not> is_wrapper_instance (heap ! data)"
    by (simp add: list_all_length)
  have again: "DataFrame_new pl_DataFrame2 (class_getitem cls S) data args2 heap = ((log, Inr result), heap')"
    using DataFrameObject v r res by (simp add: DataFrame_new_def class_getitem_def)
  from assms(1,2) plain again res DataFrameObject show ?thesis by simp
next
  case (RawObject raw)
  obtain df where b: "pl_DataFrame raw args = Inr df"
    using assms(3) RawObject by (cases "pl_DataFrame raw args") (simp_all add: DataFrame_new_def)
  obtain l r where v: "polars_validate_dataframe df S = (l, r)" by (cases "polars_validate_dataframe df S")
  from assms(3) RawObject b v have res: "result = length heap" "heap' = heap @ [DataFrameObject PlDataFrame df]"
    by (cases r; simp add: DataFrame_new_def class_getitem_def)+
  from assms(2) res RawObject b show ?thesis by simp
qed

theorem C10_result_is_plain_dataframe_witness:
  "DataFrame_new build_int_frame (class_getitem DataFrame [(''a'', Plain PyInt)]) 0 ()
       [DataFrameObject PlDataFrame [(''a'', (Int64, [IntValue 1, IntValue 2, IntValue 3]))],
        RawObject [(''a'', [1, 2, 3])]]
     = (([ExistenceChecked ''a'', CheckerCalled ''a''], Inr 0),
        [DataFrameObject PlDataFrame [(''a'', (Int64, [IntValue 1, IntValue 2, IntValue 3]))],
         RawObject [(''a'', [1, 2, 3])]])
   \<and> DataFrame_new build_int_frame (class_getitem DataFrame [(''a'', Plain PyInt)]) 1 ()
       [DataFrameObject PlDataFrame [(''a'', (Int64, [IntValue 1, IntValue 2, IntValue 3]))],
        RawObject [(''a'', [1, 2, 3])]]
     = (([ExistenceChecked ''a'', CheckerCalled ''a''], Inr 2),
        [DataFrameObject PlDataFrame [(''a'', (Int64, [IntValue 1, IntValue 2, IntValue 3]))],
         RawObject [(''a'', [1, 2, 3])],
         DataFrameObject PlDataFrame [(''a'', (Int64, [IntValue 1, IntValue 2, IntValue 3]))]])
   \<and> \<not> is_wrapper_instance
        ([DataFrameObject PlDataFrame [(''a'', (Int64, [IntValue 1, IntValue 2, IntValue 3]))],
          RawObject [(''a'', [1 :: int, 2, 3])],
          DataFrameObject PlDataFrame [(''a'', (Int64, [IntValue 1, IntValue 2, IntValue 3]))]] ! 2)"
proof -
  let ?T = "[(''a'', (Int64, [IntValue 1, IntValue 2, IntValue 3]))]"
  let ?heap = "[DataFrameObject PlDataFrame ?T, RawObject [(''a'', [1 :: int, 2, 3])]]"
  let ?heap' = "[DataFrameObject PlDataFrame ?T, RawObject [(''a'', [1 :: int, 2, 3])],
                 DataFrameObject PlDataFrame ?T]"
  let ?S = "[(''a'', Plain PyInt)]"
  let ?log = "[ExistenceChecked ''a'', CheckerCalled ''a'']"
  have plain: "list_all (\<lambda>ob. \<not> is_wrapper_instance ob) ?heap" by simp
  have run0: "DataFrame_new build_int_frame (class_getitem DataFrame ?S) 0 () ?heap = ((?log, Inr 0), ?heap)"
    by (simp add: DataFrame_new_def class_getitem_def engine_defs)
  have run1: "DataFrame_new build_int_frame (class_getitem DataFrame ?S) 1 () ?heap = ((?log, Inr 2), ?heap')"
    by (simp add: DataFrame_new_def class_getitem_def build_int_frame_def engine_defs)
  have "(1 :: nat) < length ?heap" by simp
  from C10_result_is_plain_dataframe [OF this plain run1, THEN conjunct2, THEN conjunct1]
  have "\<not> is_wrapper_instance (?heap' ! 2)" .
  with run0 run1 show ?thesis by (intro conjI)
qed

end
